theory Spec2Isabelle
  imports Complex_Main "HOL-Library.Multiset" "HOL-Library.AList"
begin

section \<open>Python values and failures\<close>

text \<open>
  The repository is Python. A raised exception is a value of \<open>py_error\<close>; a method that
  mutates its object and may raise returns the pair of the exception (if any) and the
  state as it stands at that moment, since nothing is rolled back when Python raises.
\<close>

datatype py_error = KeyError string | IndexError | ValueError string

text \<open>
  \<^verbatim>\<open>xs[i]\<close> on a Python list: an index from \<open>0\<close> to \<open>len - 1\<close> counts from the front, an
  index from \<open>-len\<close> to \<open>-1\<close> counts from the end, any other index raises IndexError.
\<close>

definition py_index :: "int \<Rightarrow> nat \<Rightarrow> nat option" where
  "py_index i n =
     (if 0 \<le> i \<and> i < int n then Some (nat i)
      else if i < 0 \<and> - int n \<le> i then Some (nat (int n + i))
      else None)"

definition list_getitem :: "'a list \<Rightarrow> int \<Rightarrow> py_error + 'a" where
  "list_getitem xs i =
     (case py_index i (length xs) of
        Some j \<Rightarrow> Inr (xs ! j)
      | None \<Rightarrow> Inl IndexError)"

section \<open>The voting game state (examples/voting/state.py)\<close>

text \<open>
  \<^verbatim>\<open>class CompensationRequest(BaseModel): number: int; compensation: Optional[int] = None\<close>
\<close>

record CompensationRequest =
  number :: int
  compensation :: "int option"

text \<open>
  One item of the list stored under the key \<^verbatim>\<open>compensationRequests\<close> of the raw payload.
  The item is a JSON object; the two keys the property reads are fields here, \<open>None\<close>
  standing for a key the object does not have. The values are the ones the fields of
  \<open>CompensationRequest\<close> hold: an integer for \<^verbatim>\<open>number\<close>, and an array of integers and
  nulls for \<^verbatim>\<open>compensationRequests\<close> (the server sends \<^verbatim>\<open>[null, 300000]\<close>).
\<close>

record raw_item =
  item_number :: "int option"
  item_compensationRequests :: "int option list option"

text \<open>
  \<^verbatim>\<open>class VPrivate\<close>: \<open>wallet\<close> is a list of dictionaries with string keys; \<open>raw_compensation\<close>
  is the dictionary stored from the event key \<^verbatim>\<open>compensation-requests-received\<close>, of which
  only the key \<^verbatim>\<open>compensationRequests\<close> is ever read: \<open>None\<close> is a dictionary without that
  key (the empty default among them). The fields that no method below reads or writes
  (\<^verbatim>\<open>value_signals\<close>, \<^verbatim>\<open>declarations\<close>, \<^verbatim>\<open>property\<close>) live in the record's extension.
\<close>

record 'v VPrivate =
  wallet :: "(string \<rightharpoonup> 'v) list"
  raw_compensation :: "raw_item list option"

text \<open>
  \<^verbatim>\<open>class VPublic\<close>: the market ledger and the chat transcript are objects of classes defined
  outside these files, so their states are type parameters.
\<close>

record ('v, 'm, 'c) VPublic =
  conditions :: "(string \<rightharpoonup> 'v) list"
  market_state :: 'm
  chat_state :: 'c
  winning_condition :: int

record ('v, 'm, 'c) VGameState =
  private_information :: "'v VPrivate"
  public_information :: "('v, 'm, 'c) VPublic"

subsection \<open>\<^verbatim>\<open>VPublic.winning_condition_description\<close>\<close>

text \<open>
  \<^verbatim>\<open>return self.conditions[self.winning_condition] if self.conditions else {}\<close>
\<close>

definition winning_condition_description ::
    "('v, 'm, 'c, 'z) VPublic_scheme \<Rightarrow> py_error + (string \<rightharpoonup> 'v)" where
  "winning_condition_description self =
     (if conditions self \<noteq> [] then list_getitem (conditions self) (winning_condition self)
      else Inr Map.empty)"

subsection \<open>\<^verbatim>\<open>VPrivate.compensationRequestsReceived\<close>\<close>

text \<open>
  The sort key \<^verbatim>\<open>float("inf") if x.compensation is None else x.compensation\<close>: an integer
  or positive infinity, compared as Python compares an \<^verbatim>\<open>int\<close> with \<^verbatim>\<open>inf\<close> (every
  integer is below it).
\<close>

datatype sort_value = Finite int | PosInf

instantiation sort_value :: linorder
begin

fun less_eq_sort_value :: "sort_value \<Rightarrow> sort_value \<Rightarrow> bool" where
  "less_eq_sort_value (Finite a) (Finite b) = (a \<le> b)"
| "less_eq_sort_value (Finite a) PosInf = True"
| "less_eq_sort_value PosInf (Finite b) = False"
| "less_eq_sort_value PosInf PosInf = True"

definition less_sort_value :: "sort_value \<Rightarrow> sort_value \<Rightarrow> bool" where
  "less_sort_value x y = (x \<le> y \<and> \<not> y \<le> x)"

instance
proof
  fix x y z :: sort_value
  show "(x < y) = (x \<le> y \<and> \<not> y \<le> x)"
    by (simp add: less_sort_value_def)
  show "x \<le> x"
    by (cases x) simp_all
  show "x \<le> y \<Longrightarrow> y \<le> z \<Longrightarrow> x \<le> z"
    by (cases x; cases y; cases z) simp_all
  show "x \<le> y \<Longrightarrow> y \<le> x \<Longrightarrow> x = y"
    by (cases x; cases y) simp_all
  show "x \<le> y \<or> y \<le> x"
    by (cases x; cases y) auto
qed

end

definition compensation_key :: "CompensationRequest \<Rightarrow> sort_value" where
  "compensation_key x = (case compensation x of None \<Rightarrow> PosInf | Some c \<Rightarrow> Finite c)"

text \<open>
  The loop over the raw items, with the list \<^verbatim>\<open>requests\<close> it appends to:
  \<^verbatim>\<open>
  for item in raw_data.get("compensationRequests", []):
      comp_value = None
      if "compensationRequests" in item and len(item.get("compensationRequests", [])) > 1:
          comp_value = item["compensationRequests"][1]
      requests.append(CompensationRequest(number=item["number"], compensation=comp_value))
  \<close>
  \<^verbatim>\<open>item["number"]\<close> raises KeyError on an item without that key, which ends the property.
\<close>

fun collect_requests ::
    "raw_item list \<Rightarrow> CompensationRequest list \<Rightarrow> py_error + CompensationRequest list" where
  "collect_requests [] requests = Inr requests"
| "collect_requests (item # items) requests =
     (let comp_value =
            (case item_compensationRequests item of
               Some arr \<Rightarrow> if length arr > 1 then arr ! 1 else None
             | None \<Rightarrow> None)
      in case item_number item of
           None \<Rightarrow> Inl (KeyError ''number'')
         | Some n \<Rightarrow>
             collect_requests items
               (requests @ [\<lparr>number = n, compensation = comp_value\<rparr>]))"

text \<open>
  \<^verbatim>\<open>raw_data = self.raw_compensation or {}\<close>, then the loop, then
  \<^verbatim>\<open>sorted(requests, key=...)\<close>. Python's \<^verbatim>\<open>sorted\<close> is stable, as \<open>sort_key\<close> is.
\<close>

definition raw_items :: "('v, 'z) VPrivate_scheme \<Rightarrow> raw_item list" where
  "raw_items self = (case raw_compensation self of None \<Rightarrow> [] | Some items \<Rightarrow> items)"

definition compensationRequestsReceived ::
    "('v, 'z) VPrivate_scheme \<Rightarrow> py_error + CompensationRequest list" where
  "compensationRequestsReceived self =
     (case collect_requests (raw_items self) [] of
        Inl e \<Rightarrow> Inl e
      | Inr requests \<Rightarrow> Inr (sort_key compensation_key requests))"

text \<open>
  The compensation value of a raw item in the words of the specification: the element at
  index 1 of the item's array when the array has more than one element, else absent.
\<close>

definition spec_compensation_value :: "raw_item \<Rightarrow> int option" where
  "spec_compensation_value item =
     (case item_compensationRequests item of
        None \<Rightarrow> None
      | Some arr \<Rightarrow> (case arr of _ # v # _ \<Rightarrow> v | _ \<Rightarrow> None))"

subsection \<open>\<^verbatim>\<open>VGameState\<close>: the custom handlers\<close>

text \<open>
  A handler takes the event type and the payload (a dictionary with string keys) and
  mutates the game state. The ledger's and the transcript's own \<^verbatim>\<open>process_event\<close> are
  parameters \<open>P\<close> and \<open>C\<close>: methods of classes defined outside these files.
\<close>

type_synonym ('v, 's) handler = "string \<Rightarrow> (string \<rightharpoonup> 'v) \<Rightarrow> 's \<Rightarrow> py_error option \<times> 's"

text \<open>
  One of the two assignments
  \<^verbatim>\<open>self.private_information.wallet[winning_condition][key] = data[key]\<close>.
  Python evaluates the right-hand side first (KeyError when the payload lacks the key),
  then \<^verbatim>\<open>wallet[winning_condition]\<close> (IndexError), then stores into that dictionary.
\<close>

definition wallet_setitem ::
    "int \<Rightarrow> string \<Rightarrow> (string \<rightharpoonup> 'v) \<Rightarrow> ('v, 'm, 'c, 'z) VGameState_scheme
      \<Rightarrow> py_error option \<times> ('v, 'm, 'c, 'z) VGameState_scheme" where
  "wallet_setitem winning_cond key data self =
     (case data key of
        None \<Rightarrow> (Some (KeyError key), self)
      | Some v \<Rightarrow>
          (let w = wallet (private_information self) in
           case py_index winning_cond (length w) of
             None \<Rightarrow> (Some IndexError, self)
           | Some j \<Rightarrow>
               (None,
                self\<lparr>private_information :=
                  (private_information self)\<lparr>wallet := w[j := (w ! j)(key \<mapsto> v)]\<rparr>\<rparr>)))"

text \<open>
  \<^verbatim>\<open>
  def _handle_market_event(self, event_type, data):
      self.public_information.market_state.process_event(event_type=event_type, data=data)
      if event_type == "asset-movement":
          winning_condition = self.public_information.winning_condition
          self.private_information.wallet[winning_condition]["balance"] = data["balance"]
          self.private_information.wallet[winning_condition]["shares"] = data["shares"]
  \<close>
\<close>

definition handle_market_event ::
    "('v, 'm) handler \<Rightarrow> ('v, ('v, 'm, 'c, 'z) VGameState_scheme) handler" where
  "handle_market_event P event_type data self =
     (case P event_type data (market_state (public_information self)) of
        (err, m) \<Rightarrow>
          (let self1 = self\<lparr>public_information := (public_information self)\<lparr>market_state := m\<rparr>\<rparr>
           in case err of
                Some e \<Rightarrow> (Some e, self1)
              | None \<Rightarrow>
                  if event_type = ''asset-movement'' then
                    (let winning_cond = winning_condition (public_information self1)
                     in case wallet_setitem winning_cond ''balance'' data self1 of
                          (Some e, self2) \<Rightarrow> (Some e, self2)
                        | (None, self2) \<Rightarrow> wallet_setitem winning_cond ''shares'' data self2)
                  else (None, self1)))"

text \<open>
  \<^verbatim>\<open>
  def _handle_chat_event(self, event_type, data):
      self.public_information.chat_state.process_event(event_type=event_type, data=data)
  \<close>
\<close>

definition handle_chat_event ::
    "('v, 'c) handler \<Rightarrow> ('v, ('v, 'm, 'c, 'z) VGameState_scheme) handler" where
  "handle_chat_event C event_type data self =
     (case C event_type data (chat_state (public_information self)) of
        (err, c) \<Rightarrow>
          (err, self\<lparr>public_information := (public_information self)\<lparr>chat_state := c\<rparr>\<rparr>))"

text \<open>
  \<^verbatim>\<open>
  def get_custom_handlers(self):
      market_events = ["add-order", "update-order", "delete-order",
                       "contract-fulfilled", "asset-movement"]
      handlers = {event: self._handle_market_event for event in market_events}
      handlers["message-received"] = self._handle_chat_event
      return handlers
  \<close>
\<close>

definition market_events :: "string list" where
  "market_events =
     [''add-order'', ''update-order'', ''delete-order'', ''contract-fulfilled'',
      ''asset-movement'']"

definition get_custom_handlers ::
    "('v, 'm) handler \<Rightarrow> ('v, 'c) handler
      \<Rightarrow> (string \<rightharpoonup> ('v, ('v, 'm, 'c, 'z) VGameState_scheme) handler)" where
  "get_custom_handlers P C =
     (map_of (map (\<lambda>event. (event, handle_market_event P)) market_events))
       (''message-received'' \<mapsto> handle_chat_event C)"

section \<open>The agent managers (examples/voting/manager.py, examples/harberger/manager.py)\<close>

text \<open>
  The value under the key \<^verbatim>\<open>role\<close> of an \<^verbatim>\<open>assign-role\<close> message: an integer role code, or
  a string (\<^verbatim>\<open>message.data.get("role", "")\<close> yields the empty string when the key is
  missing). A string never equals an integer in Python.
\<close>

datatype role_value = IntRole int | StrRole string

text \<open>
  The manager's logger, as the list of records written to it: \<^verbatim>\<open>logger.info(f"...{role}")\<close>
  keeps its text and the value formatted into it, \<^verbatim>\<open>logger.error(text)\<close> its text.
\<close>

datatype log_record = LogInfo string role_value | LogError string

text \<open>
  An agent role object once the manager has wired it: its class, whether the manager's
  logger has been assigned to it, and the observability provider given to its LLM.
\<close>

record 'k agent_instance =
  agent_class :: 'k
  logger_assigned :: bool
  llm_observability :: "string option"

record 'k manager =
  agent_role :: "'k agent_instance option"
  logger :: "log_record list"

text \<open>The role classes of examples/voting/roles.py, with their class attributes.\<close>

datatype voting_role = Developer | Owner

fun role :: "voting_role \<Rightarrow> int" where
  "role Developer = 2"
| "role Owner = 3"

fun name :: "voting_role \<Rightarrow> string" where
  "name Developer = ''Developer''"
| "name Owner = ''Owner''"

fun task_phases :: "voting_role \<Rightarrow> int list" where
  "task_phases Developer = [2, 4, 5, 6]"
| "task_phases Owner = [2, 3, 5, 6]"

text \<open>
  \<^verbatim>\<open>VAgentManager._initialize_agent\<close>:
  \<^verbatim>\<open>
  if role == 2:
      self.agent_role = Developer()
      self.agent_role.logger = self.logger
      self.agent_role.llm.observability = get_observability_provider("langsmith")
  elif role == 3:
      self.agent_role = Owner()
      ...
  else:
      self.logger.error("Invalid role assigned; cannot initialize agent.")
      raise ValueError("Invalid role for agent initialization.")
  \<close>
\<close>

definition wired :: "'k \<Rightarrow> string \<Rightarrow> 'k agent_instance" where
  "wired k provider =
     \<lparr>agent_class = k, logger_assigned = True, llm_observability = Some provider\<rparr>"

definition VAgentManager_initialize_agent ::
    "role_value \<Rightarrow> (voting_role, 'z) manager_scheme
      \<Rightarrow> py_error option \<times> (voting_role, 'z) manager_scheme" where
  "VAgentManager_initialize_agent r self =
     (if r = IntRole 2 then (None, self\<lparr>agent_role := Some (wired Developer ''langsmith'')\<rparr>)
      else if r = IntRole 3 then (None, self\<lparr>agent_role := Some (wired Owner ''langsmith'')\<rparr>)
      else (Some (ValueError ''Invalid role for agent initialization.''),
            self\<lparr>logger := logger self @
              [LogError ''Invalid role assigned; cannot initialize agent.'']\<rparr>))"

text \<open>
  \<^verbatim>\<open>HLAgentManager._initialize_agent\<close> has one branch more (role code 1, the speculator) and
  gives the LLM a \<^verbatim>\<open>LangFuseObservability()\<close>. Its role classes are in a module outside
  these files; only their names are used.
\<close>

datatype harberger_role = HL_Speculator | HL_Developer | HL_Owner

definition HLAgentManager_initialize_agent ::
    "role_value \<Rightarrow> (harberger_role, 'z) manager_scheme
      \<Rightarrow> py_error option \<times> (harberger_role, 'z) manager_scheme" where
  "HLAgentManager_initialize_agent r self =
     (if r = IntRole 1 then
        (None, self\<lparr>agent_role := Some (wired HL_Speculator ''LangFuseObservability'')\<rparr>)
      else if r = IntRole 2 then
        (None, self\<lparr>agent_role := Some (wired HL_Developer ''LangFuseObservability'')\<rparr>)
      else if r = IntRole 3 then
        (None, self\<lparr>agent_role := Some (wired HL_Owner ''LangFuseObservability'')\<rparr>)
      else (Some (ValueError ''Invalid role for agent initialization.''),
            self\<lparr>logger := logger self @
              [LogError ''Invalid role assigned; cannot initialize agent.'']\<rparr>))"

text \<open>
  \<^verbatim>\<open>_handle_role_assignment\<close>, the same in both managers; \<open>init\<close> is the manager's own
  \<^verbatim>\<open>_initialize_agent\<close>. There is no \<^verbatim>\<open>try\<close> around the call: what it raises leaves the
  handler.
  \<^verbatim>\<open>
  role = message.data.get("role", "")
  self.logger.info(f"Role assigned: {role}")
  self._initialize_agent(role)
  \<close>
\<close>

definition assigned_role :: "(string \<rightharpoonup> role_value) \<Rightarrow> role_value" where
  "assigned_role data = (case data ''role'' of None \<Rightarrow> StrRole [] | Some v \<Rightarrow> v)"

definition handle_role_assignment ::
    "(role_value \<Rightarrow> ('k, 'z) manager_scheme \<Rightarrow> py_error option \<times> ('k, 'z) manager_scheme)
      \<Rightarrow> (string \<rightharpoonup> role_value) \<Rightarrow> ('k, 'z) manager_scheme
      \<Rightarrow> py_error option \<times> ('k, 'z) manager_scheme" where
  "handle_role_assignment init data self =
     (let r = assigned_role data
      in init r (self\<lparr>logger := logger self @ [LogInfo ''Role assigned: '' r]\<rparr>))"

section \<open>The market ledger\<close>

text \<open>
  The class \<^verbatim>\<open>MarketState\<close> (with \<^verbatim>\<open>Order\<close>) is imported by the tests and by the game state
  but is not among these files. The part of it used below is taken from the
  specification's sections 3 and 4.2 and from the fields the tests construct.
\<close>

text \<open>
  Modelled from the spec: the type of an order's \<^verbatim>\<open>type\<close> field is missing. Section 3 gives
  it as the enumeration bid, ask.
\<close>

datatype side = bid | ask

text \<open>
  Modelled from the spec: the record \<^verbatim>\<open>Order\<close> is missing. Fields as in section 3 and in
  \<^verbatim>\<open>test_order_creation\<close>: id, sender, price, quantity, type (bid or ask), condition, now.
  Price and quantity are floating-point numbers in the program and reals here: the order
  book only compares them.
\<close>

record Order =
  order_id :: int
  sender :: int
  price :: real
  quantity :: real
  order_type :: side
  condition :: int
  now :: bool

text \<open>
  Modelled from the spec: the class \<^verbatim>\<open>MarketState\<close> is missing. It owns the mapping from id
  to live order and the list of trades. The mapping is a Python dictionary: an association
  list with one entry per key, in insertion order. The trades are not touched by the
  operations below, so their type is a parameter.
\<close>

record 't MarketState =
  orders :: "(int \<times> Order) list"
  trades :: "'t list"

text \<open>
  Modelled from the spec: \<^verbatim>\<open>addOrder\<close> is missing. "Parses an Order from the nested
  \<^verbatim>\<open>order\<close> payload key; inserts it keyed by id; overwrites silently if the id already
  exists." \<open>AList.update\<close> is the dictionary assignment: an existing key keeps its place, a
  new key goes to the end.
\<close>

definition add_order :: "Order \<Rightarrow> ('t, 'z) MarketState_scheme \<Rightarrow> ('t, 'z) MarketState_scheme" where
  "add_order ord m = m\<lparr>orders := AList.update (order_id ord) ord (orders m)\<rparr>"

text \<open>
  Modelled from the spec: the order-book view is missing. "One line per live order,
  ordering rule: all ask orders first, sorted by price descending; then all bid orders,
  sorted by price descending; ties broken by arrival/insertion order." The text of a line
  (the string form of an order) is the parameter \<open>render\<close>.
\<close>

definition live_orders :: "('t, 'z) MarketState_scheme \<Rightarrow> Order list" where
  "live_orders m = map snd (orders m)"

text \<open>
  Modelled from the spec: "sorted by price descending; ties broken by arrival/insertion
  order", a stable sort on the negated price.
\<close>

definition by_price_descending :: "Order list \<Rightarrow> Order list" where
  "by_price_descending os = sort_key (\<lambda>ord. - price ord) os"

text \<open>
  Modelled from the spec: "all ask orders first, sorted by price descending; then all bid
  orders, sorted by price descending".
\<close>

definition order_book_orders :: "('t, 'z) MarketState_scheme \<Rightarrow> Order list" where
  "order_book_orders m =
     by_price_descending (filter (\<lambda>ord. order_type ord = ask) (live_orders m)) @
     by_price_descending (filter (\<lambda>ord. order_type ord = bid) (live_orders m))"

text \<open>
  Modelled from the spec: "one line per live order", each line the rendering of its order.
\<close>

definition order_book_lines :: "(Order \<Rightarrow> string) \<Rightarrow> ('t, 'z) MarketState_scheme \<Rightarrow> string list" where
  "order_book_lines render m = map render (order_book_orders m)"

section \<open>Example states\<close>

text \<open>
  A private section holding four raw compensation items: two with a value at index 1, one
  whose array has a single element, one without the array.
\<close>

definition example_private :: "string VPrivate" where
  "example_private =
     \<lparr>wallet = [],
      raw_compensation = Some
        [\<lparr>item_number = Some 1, item_compensationRequests = Some [None, Some 300]\<rparr>,
         \<lparr>item_number = Some 2, item_compensationRequests = Some [None]\<rparr>,
         \<lparr>item_number = Some 3, item_compensationRequests = Some [None, Some 100]\<rparr>,
         \<lparr>item_number = Some 4, item_compensationRequests = None\<rparr>]\<rparr>"

text \<open>
  A game state with two wallet entries and winning condition 1, a ledger and a transcript
  that ignore every event, and an \<^verbatim>\<open>asset-movement\<close> payload.
\<close>

definition example_game :: "(int, unit, unit) VGameState" where
  "example_game =
     \<lparr>private_information =
        \<lparr>wallet = [[''balance'' \<mapsto> 0, ''shares'' \<mapsto> 0], [''balance'' \<mapsto> 10, ''shares'' \<mapsto> 1]],
         raw_compensation = None\<rparr>,
      public_information =
        \<lparr>conditions = [], market_state = (), chat_state = (), winning_condition = 1\<rparr>\<rparr>"

definition ignore_event :: "(int, unit) handler" where
  "ignore_event event_type data m = (None, m)"

definition example_movement :: "string \<rightharpoonup> int" where
  "example_movement = [''balance'' \<mapsto> 500, ''shares'' \<mapsto> 7]"

text \<open>The four orders of \<^verbatim>\<open>test_order_book_sorting\<close>, added in the order of the test.\<close>

definition example_order :: "int \<Rightarrow> real \<Rightarrow> real \<Rightarrow> side \<Rightarrow> Order" where
  "example_order i p q t =
     \<lparr>order_id = i, sender = 100 * i, price = p, quantity = q, order_type = t,
      condition = 1, now = False\<rparr>"

definition example_market :: "unit MarketState" where
  "example_market =
     add_order (example_order 4 55 3 ask)
       (add_order (example_order 3 45 8 bid)
         (add_order (example_order 2 60 5 ask)
           (add_order (example_order 1 50 10 bid) \<lparr>orders = [], trades = []\<rparr>)))"

definition example_render :: "Order \<Rightarrow> string" where
  "example_render ord =
     (if order_id ord = 1 then ''bid 50''
      else if order_id ord = 2 then ''ask 60''
      else if order_id ord = 3 then ''bid 45''
      else ''ask 55'')"

section \<open>Python indexing\<close>

lemma py_index_bound: "py_index i n = Some j \<Longrightarrow> j < n"
  by (auto simp: py_index_def split: if_splits)

lemma list_getitem_front:
  "0 \<le> i \<Longrightarrow> i < int (length xs) \<Longrightarrow> list_getitem xs i = Inr (xs ! nat i)"
  by (simp add: list_getitem_def py_index_def)

lemma list_getitem_back:
  "i < 0 \<Longrightarrow> - int (length xs) \<le> i \<Longrightarrow>
   list_getitem xs i = Inr (xs ! nat (int (length xs) + i))"
  by (simp add: list_getitem_def py_index_def)

lemma list_getitem_out_of_range:
  "int (length xs) \<le> i \<or> i < - int (length xs) \<Longrightarrow> list_getitem xs i = Inl IndexError"
  by (auto simp: list_getitem_def py_index_def)

section \<open>The compensation requests received\<close>

lemma comp_value_spec:
  "(case item_compensationRequests item of
      Some arr \<Rightarrow> if length arr > 1 then arr ! 1 else None
    | None \<Rightarrow> None) = spec_compensation_value item"
  by (auto simp: spec_compensation_value_def split: option.splits list.splits)

text \<open>
  The loop returns when every item has a number, and then appends one request per item,
  in the order of the items, each with the item's number and the compensation value the
  specification describes.
\<close>

lemma collect_requests_total:
  "\<forall>item \<in> set items. item_number item \<noteq> None \<Longrightarrow>
   \<exists>rs. collect_requests items acc = Inr (acc @ rs) \<and>
        map (\<lambda>x. (Some (number x), compensation x)) rs
          = map (\<lambda>item. (item_number item, spec_compensation_value item)) items"
proof (induction items arbitrary: acc)
  case Nil
  then show ?case by simp
next
  case (Cons item items)
  then obtain n where n: "item_number item = Some n" by auto
  let ?r = "\<lparr>number = n, compensation = spec_compensation_value item\<rparr>"
  have "\<forall>item \<in> set items. item_number item \<noteq> None"
    using Cons.prems by simp
  from Cons.IH [OF this, of "acc @ [?r]"] obtain rs where
    rs: "collect_requests items (acc @ [?r]) = Inr ((acc @ [?r]) @ rs)"
        "map (\<lambda>x. (Some (number x), compensation x)) rs
          = map (\<lambda>item. (item_number item, spec_compensation_value item)) items"
    by auto
  show ?case
    by (rule exI [of _ "?r # rs"]) (simp add: n comp_value_spec rs Let_def)
qed

text \<open>The first item without a number ends the property with KeyError.\<close>

lemma collect_requests_KeyError:
  "item_number item = None \<Longrightarrow> \<forall>i \<in> set before. item_number i \<noteq> None \<Longrightarrow>
   collect_requests (before @ item # rest) acc = Inl (KeyError ''number'')"
  by (induction before arbitrary: acc) (auto simp: Let_def)

lemma absent_last:
  assumes "sorted (map compensation_key rs)" "i < j" "j < length rs"
    "compensation (rs ! i) = None"
  shows "compensation (rs ! j) = None"
proof -
  have "compensation_key (rs ! i) \<le> compensation_key (rs ! j)"
    using assms sorted_nth_mono [of "map compensation_key rs" i j] by simp
  then show ?thesis
    using assms(4) by (cases "compensation (rs ! j)") (simp_all add: compensation_key_def)
qed

lemma example_private_items:
  "raw_items example_private =
        [\<lparr>item_number = Some 1, item_compensationRequests = Some [None, Some 300]\<rparr>,
         \<lparr>item_number = Some 2, item_compensationRequests = Some [None]\<rparr>,
         \<lparr>item_number = Some 3, item_compensationRequests = Some [None, Some 100]\<rparr>,
         \<lparr>item_number = Some 4, item_compensationRequests = None\<rparr>]"
  by (simp add: raw_items_def example_private_def)

lemma example_private_result:
  "compensationRequestsReceived example_private =
     Inr [\<lparr>number = 3, compensation = Some 100\<rparr>, \<lparr>number = 1, compensation = Some 300\<rparr>,
          \<lparr>number = 2, compensation = None\<rparr>, \<lparr>number = 4, compensation = None\<rparr>]"
  by (simp add: compensationRequestsReceived_def example_private_items compensation_key_def
        Let_def)

lemma example_missing_number:
  "compensationRequestsReceived
     \<lparr>wallet = ([] :: (string \<rightharpoonup> string) list),
      raw_compensation =
        Some [\<lparr>item_number = None, item_compensationRequests = Some [None, Some 5]\<rparr>]\<rparr>
   = Inl (KeyError ''number'')"
  by (simp add: compensationRequestsReceived_def raw_items_def Let_def)

text \<open>
  Claim C1. For a raw compensation payload in which every item carries its \<^verbatim>\<open>number\<close>, the
  property returns a list with one request per raw item; the requests carry the items'
  numbers, each with the element at index 1 of the item's \<^verbatim>\<open>compensationRequests\<close> array
  when the array has more than one element and no value otherwise; the list is sorted
  ascending by compensation value, an absent value counting as positive infinity, so that
  no request with a value comes after a request without one.
\<close>

theorem compensationRequestsReceived_sorted:
  assumes "\<forall>item \<in> set (raw_items self). item_number item \<noteq> None"
  shows "\<exists>requests.
     compensationRequestsReceived self = Inr requests \<and>
     length requests = length (raw_items self) \<and>
     mset (map (\<lambda>x. (Some (number x), compensation x)) requests)
       = mset (map (\<lambda>item. (item_number item, spec_compensation_value item))
            (raw_items self)) \<and>
     sorted (map compensation_key requests) \<and>
     (\<forall>i j. i < j \<and> j < length requests \<and> compensation (requests ! i) = None
        \<longrightarrow> compensation (requests ! j) = None)"
proof -
  from collect_requests_total [OF assms, of "[]"] obtain rs where
    rs: "collect_requests (raw_items self) [] = Inr rs"
        "map (\<lambda>x. (Some (number x), compensation x)) rs
          = map (\<lambda>item. (item_number item, spec_compensation_value item)) (raw_items self)"
    by auto
  let ?out = "sort_key compensation_key rs"
  have 1: "compensationRequestsReceived self = Inr ?out"
    by (simp add: compensationRequestsReceived_def rs(1))
  have "length (map (\<lambda>x. (Some (number x), compensation x)) rs)
          = length (map (\<lambda>item. (item_number item, spec_compensation_value item))
              (raw_items self))"
    by (simp only: rs(2))
  then have "length rs = length (raw_items self)"
    by (simp only: length_map)
  then have 2: "length ?out = length (raw_items self)" by simp
  have "mset (map (\<lambda>x. (Some (number x), compensation x)) ?out)
          = mset (map (\<lambda>x. (Some (number x), compensation x)) rs)"
    by simp
  then have 3: "mset (map (\<lambda>x. (Some (number x), compensation x)) ?out)
       = mset (map (\<lambda>item. (item_number item, spec_compensation_value item))
            (raw_items self))"
    by (simp only: rs(2))
  have 4: "sorted (map compensation_key ?out)"
    by (rule sorted_sort_key)
  have 5: "\<forall>i j. i < j \<and> j < length ?out \<and> compensation (?out ! i) = None
        \<longrightarrow> compensation (?out ! j) = None"
  proof (intro allI impI)
    fix i j
    assume "i < j \<and> j < length ?out \<and> compensation (?out ! i) = None"
    then show "compensation (?out ! j) = None"
      using absent_last [OF 4, of i j] by simp
  qed
  show ?thesis
    by (rule exI [of _ ?out]) (intro conjI 1 2 3 4 5)
qed

theorem compensationRequestsReceived_sorted_witness:
  "compensationRequestsReceived example_private =
     Inr [\<lparr>number = 3, compensation = Some 100\<rparr>, \<lparr>number = 1, compensation = Some 300\<rparr>,
          \<lparr>number = 2, compensation = None\<rparr>, \<lparr>number = 4, compensation = None\<rparr>] \<and>
   (\<exists>requests.
     compensationRequestsReceived example_private = Inr requests \<and>
     length requests = length (raw_items example_private) \<and>
     mset (map (\<lambda>x. (Some (number x), compensation x)) requests)
       = mset (map (\<lambda>item. (item_number item, spec_compensation_value item))
            (raw_items example_private)) \<and>
     sorted (map compensation_key requests) \<and>
     (\<forall>i j. i < j \<and> j < length requests \<and> compensation (requests ! i) = None
        \<longrightarrow> compensation (requests ! j) = None))"
proof -
  have "\<forall>item \<in> set (raw_items example_private). item_number item \<noteq> None"
    by (simp add: example_private_items)
  from example_private_result compensationRequestsReceived_sorted [OF this]
  show ?thesis by (rule conjI)
qed

section \<open>The winning-condition description\<close>

lemma winning_condition_description_IndexError:
  "winning_condition_description
     \<lparr>conditions = [[''name'' \<mapsto> ''A'']], market_state = (), chat_state = (),
      winning_condition = 1\<rparr> = Inl IndexError"
  by (simp add: winning_condition_description_def list_getitem_def py_index_def)

text \<open>
  Claim C10. When the conditions list is empty the view is the empty mapping, whatever the
  winning-condition index is. When the list is not empty the view is the Python indexing
  \<^verbatim>\<open>conditions[winning_condition]\<close>: for an index that addresses an entry (from the front,
  or from the end when negative) it is that entry of the list.
\<close>

theorem winning_condition_description_view:
  "(conditions self = [] \<longrightarrow> winning_condition_description self = Inr Map.empty) \<and>
   (conditions self \<noteq> [] \<longrightarrow>
      winning_condition_description self
        = list_getitem (conditions self) (winning_condition self)) \<and>
   (\<forall>j. conditions self \<noteq> [] \<and>
        py_index (winning_condition self) (length (conditions self)) = Some j \<longrightarrow>
      winning_condition_description self = Inr (conditions self ! j))"
  by (simp add: winning_condition_description_def list_getitem_def)

theorem winning_condition_description_view_witness:
  "winning_condition_description
     \<lparr>conditions = ([] :: (string \<rightharpoonup> string) list), market_state = (), chat_state = (),
      winning_condition = 7\<rparr> = Inr Map.empty \<and>
   winning_condition_description
     \<lparr>conditions = [[''name'' \<mapsto> ''A''], [''name'' \<mapsto> ''B'']], market_state = (),
      chat_state = (), winning_condition = 1\<rparr> = Inr [''name'' \<mapsto> ''B''] \<and>
   winning_condition_description
     \<lparr>conditions = [[''name'' \<mapsto> ''A''], [''name'' \<mapsto> ''B'']], market_state = (),
      chat_state = (), winning_condition = - 2\<rparr> = Inr [''name'' \<mapsto> ''A'']"
  using winning_condition_description_view
          [of "\<lparr>conditions = ([] :: (string \<rightharpoonup> string) list), market_state = (),
                chat_state = (), winning_condition = 7\<rparr>"]
        winning_condition_description_view
          [of "\<lparr>conditions = [[''name'' \<mapsto> ''A''], [''name'' \<mapsto> ''B'']], market_state = (),
                chat_state = (), winning_condition = 1\<rparr>"]
        winning_condition_description_view
          [of "\<lparr>conditions = [[''name'' \<mapsto> ''A''], [''name'' \<mapsto> ''B'']], market_state = (),
                chat_state = (), winning_condition = - 2\<rparr>"]
  by (simp add: py_index_def list_getitem_def)

section \<open>The asset-movement event\<close>

lemma wallet_setitem_ok:
  "data key = Some v \<Longrightarrow> py_index wc (length (wallet (private_information self))) = Some j \<Longrightarrow>
   wallet_setitem wc key data self =
     (None, self\<lparr>private_information := (private_information self)
        \<lparr>wallet := (wallet (private_information self))
           [j := (wallet (private_information self) ! j)(key \<mapsto> v)]\<rparr>\<rparr>)"
  by (simp add: wallet_setitem_def Let_def)

text \<open>
  The order of the two steps shows in what is left behind when one of them raises. An
  exception of the ledger ends the handler before the wallet is read.
\<close>

lemma asset_movement_ledger_raises:
  "P event_type data (market_state (public_information self)) = (Some e, m) \<Longrightarrow>
   handle_market_event P event_type data self =
     (Some e, self\<lparr>public_information := (public_information self)\<lparr>market_state := m\<rparr>\<rparr>)"
  by (simp add: handle_market_event_def Let_def)

text \<open>
  A payload without \<^verbatim>\<open>balance\<close>, or a winning condition that addresses no wallet entry,
  raises after the ledger has processed the event; the ledger's new state stays.
\<close>

lemma asset_movement_missing_balance:
  "P ''asset-movement'' data (market_state (public_information self)) = (None, m) \<Longrightarrow>
   data ''balance'' = None \<Longrightarrow>
   handle_market_event P ''asset-movement'' data self =
     (Some (KeyError ''balance''),
      self\<lparr>public_information := (public_information self)\<lparr>market_state := m\<rparr>\<rparr>)"
  by (simp add: handle_market_event_def wallet_setitem_def Let_def)

lemma asset_movement_no_entry:
  "P ''asset-movement'' data (market_state (public_information self)) = (None, m) \<Longrightarrow>
   data ''balance'' = Some b \<Longrightarrow>
   py_index (winning_condition (public_information self))
     (length (wallet (private_information self))) = None \<Longrightarrow>
   handle_market_event P ''asset-movement'' data self =
     (Some IndexError,
      self\<lparr>public_information := (public_information self)\<lparr>market_state := m\<rparr>\<rparr>)"
  by (simp add: handle_market_event_def wallet_setitem_def Let_def)

text \<open>A payload with \<^verbatim>\<open>balance\<close> but without \<^verbatim>\<open>shares\<close> raises after the balance is stored.\<close>

lemma asset_movement_missing_shares:
  "P ''asset-movement'' data (market_state (public_information self)) = (None, m) \<Longrightarrow>
   data ''balance'' = Some b \<Longrightarrow> data ''shares'' = None \<Longrightarrow>
   py_index (winning_condition (public_information self))
     (length (wallet (private_information self))) = Some j \<Longrightarrow>
   handle_market_event P ''asset-movement'' data self =
     (Some (KeyError ''shares''),
      self\<lparr>public_information := (public_information self)\<lparr>market_state := m\<rparr>,
           private_information := (private_information self)
             \<lparr>wallet := (wallet (private_information self))
                [j := (wallet (private_information self) ! j)(''balance'' \<mapsto> b)]\<rparr>\<rparr>)"
  by (simp add: handle_market_event_def wallet_setitem_def Let_def)

lemma example_game_movement:
  "handle_market_event ignore_event ''asset-movement'' example_movement example_game =
     (None,
      \<lparr>private_information =
        \<lparr>wallet = [[''balance'' \<mapsto> 0, ''shares'' \<mapsto> 0], [''balance'' \<mapsto> 500, ''shares'' \<mapsto> 7]],
         raw_compensation = None\<rparr>,
      public_information =
        \<lparr>conditions = [], market_state = (), chat_state = (), winning_condition = 1\<rparr>\<rparr>)"
  by (simp add: handle_market_event_def wallet_setitem_def ignore_event_def
        example_movement_def example_game_def py_index_def Let_def)

text \<open>
  Claim C2. The handler registered for \<^verbatim>\<open>asset-movement\<close> is the market handler. It passes
  the event to the ledger first: when the ledger raises, the handler ends there with the
  ledger's state and the wallet as it was. When the ledger returns, the handler takes the
  ledger's new state and then, for a payload that carries \<^verbatim>\<open>balance\<close> and \<^verbatim>\<open>shares\<close> and
  a winning condition that addresses wallet entry \<open>j\<close>, sets \<^verbatim>\<open>balance\<close> and \<^verbatim>\<open>shares\<close> of
  that entry to the payload's values. Nothing else of the game state changes; in particular
  every other wallet entry is as before.
\<close>

theorem asset_movement_updates_wallet:
  assumes balance: "data ''balance'' = Some b"
    and shares: "data ''shares'' = Some s"
    and entry: "py_index (winning_condition (public_information self))
                  (length (wallet (private_information self))) = Some j"
  shows "get_custom_handlers P C ''asset-movement'' = Some (handle_market_event P) \<and>
     (\<forall>e m. P ''asset-movement'' data (market_state (public_information self)) = (Some e, m) \<longrightarrow>
        handle_market_event P ''asset-movement'' data self =
          (Some e, self\<lparr>public_information := (public_information self)\<lparr>market_state := m\<rparr>\<rparr>)) \<and>
     (\<forall>m. P ''asset-movement'' data (market_state (public_information self)) = (None, m) \<longrightarrow>
        handle_market_event P ''asset-movement'' data self =
          (None,
           self\<lparr>public_information := (public_information self)\<lparr>market_state := m\<rparr>,
                private_information := (private_information self)
                  \<lparr>wallet := (wallet (private_information self))
                     [j := (wallet (private_information self) ! j)
                             (''balance'' \<mapsto> b, ''shares'' \<mapsto> s)]\<rparr>\<rparr>)) \<and>
     (\<forall>i. i < length (wallet (private_information self)) \<and> i \<noteq> j \<longrightarrow>
        wallet (private_information (snd (handle_market_event P ''asset-movement'' data self))) ! i
          = wallet (private_information self) ! i)"
proof -
  let ?w = "wallet (private_information self)"
  let ?call = "P ''asset-movement'' data (market_state (public_information self))"
  have j: "j < length ?w"
    using entry by (rule py_index_bound)
  have 1: "get_custom_handlers P C ''asset-movement'' = Some (handle_market_event P)"
    by (simp add: get_custom_handlers_def market_events_def)
  have 2: "\<forall>e m. ?call = (Some e, m) \<longrightarrow>
        handle_market_event P ''asset-movement'' data self =
          (Some e, self\<lparr>public_information := (public_information self)\<lparr>market_state := m\<rparr>\<rparr>)"
    by (simp add: asset_movement_ledger_raises)
  have returns: "handle_market_event P ''asset-movement'' data self =
          (None,
           self\<lparr>public_information := (public_information self)\<lparr>market_state := m\<rparr>,
                private_information := (private_information self)
                  \<lparr>wallet := ?w[j := (?w ! j)(''balance'' \<mapsto> b, ''shares'' \<mapsto> s)]\<rparr>\<rparr>)"
    if ledger: "?call = (None, m)" for m
  proof -
    let ?self1 = "self\<lparr>public_information := (public_information self)\<lparr>market_state := m\<rparr>\<rparr>"
    have s1: "wallet_setitem (winning_condition (public_information self)) ''balance'' data ?self1
        = (None, ?self1\<lparr>private_information := (private_information ?self1)
              \<lparr>wallet := ?w[j := (?w ! j)(''balance'' \<mapsto> b)]\<rparr>\<rparr>)"
      using wallet_setitem_ok [of data "''balance''" b _ ?self1 j] balance entry by simp
    let ?self2 = "?self1\<lparr>private_information := (private_information ?self1)
              \<lparr>wallet := ?w[j := (?w ! j)(''balance'' \<mapsto> b)]\<rparr>\<rparr>"
    have s2: "wallet_setitem (winning_condition (public_information self)) ''shares'' data ?self2
        = (None, ?self2\<lparr>private_information := (private_information ?self2)
              \<lparr>wallet := (?w[j := (?w ! j)(''balance'' \<mapsto> b)])
                 [j := ((?w[j := (?w ! j)(''balance'' \<mapsto> b)]) ! j)(''shares'' \<mapsto> s)]\<rparr>\<rparr>)"
      using wallet_setitem_ok [of data "''shares''" s _ ?self2 j] shares entry by simp
    show ?thesis
      unfolding handle_market_event_def ledger
      using s1 s2 j by (simp add: Let_def)
  qed
  then have 3: "\<forall>m. ?call = (None, m) \<longrightarrow>
        handle_market_event P ''asset-movement'' data self =
          (None,
           self\<lparr>public_information := (public_information self)\<lparr>market_state := m\<rparr>,
                private_information := (private_information self)
                  \<lparr>wallet := ?w[j := (?w ! j)(''balance'' \<mapsto> b, ''shares'' \<mapsto> s)]\<rparr>\<rparr>)"
    by blast
  have 4: "wallet (private_information (snd (handle_market_event P ''asset-movement'' data self))) ! i
          = ?w ! i" if i: "i < length ?w \<and> i \<noteq> j" for i
  proof (cases ?call)
    case (Pair err m)
    show ?thesis
    proof (cases err)
      case None
      with Pair returns [of m] i show ?thesis by simp
    next
      case (Some e)
      with Pair asset_movement_ledger_raises [of P "''asset-movement''" data self e m]
      show ?thesis by simp
    qed
  qed
  from 1 2 3 4 show ?thesis by (intro conjI) blast+
qed

theorem asset_movement_updates_wallet_witness:
  "get_custom_handlers ignore_event ignore_event ''asset-movement''
     = Some (handle_market_event ignore_event
         :: (int, (int, unit, unit) VGameState) handler) \<and>
   handle_market_event ignore_event ''asset-movement'' example_movement example_game =
     (None,
      \<lparr>private_information =
        \<lparr>wallet = [[''balance'' \<mapsto> 0, ''shares'' \<mapsto> 0], [''balance'' \<mapsto> 500, ''shares'' \<mapsto> 7]],
         raw_compensation = None\<rparr>,
      public_information =
        \<lparr>conditions = [], market_state = (), chat_state = (), winning_condition = 1\<rparr>\<rparr>) \<and>
   wallet (private_information
     (snd (handle_market_event ignore_event ''asset-movement'' example_movement example_game))) ! 0
     = wallet (private_information example_game) ! 0"
proof -
  have balance: "example_movement ''balance'' = Some 500"
    by (simp add: example_movement_def)
  have shares: "example_movement ''shares'' = Some 7"
    by (simp add: example_movement_def)
  have entry: "py_index (winning_condition (public_information example_game))
      (length (wallet (private_information example_game))) = Some 1"
    by (simp add: example_game_def py_index_def)
  have len: "0 < length (wallet (private_information example_game)) \<and> (0::nat) \<noteq> 1"
    by (simp add: example_game_def)
  from asset_movement_updates_wallet
         [where P = ignore_event and C = ignore_event and data = example_movement
            and self = example_game, OF balance shares entry]
  have "get_custom_handlers ignore_event ignore_event ''asset-movement''
          = Some (handle_market_event ignore_event
              :: (int, (int, unit, unit) VGameState) handler)"
    and "wallet (private_information
     (snd (handle_market_event ignore_event ''asset-movement'' example_movement example_game))) ! 0
     = wallet (private_information example_game) ! 0"
    using len by blast+
  with example_game_movement show ?thesis by simp
qed

section \<open>Invalid role codes\<close>

text \<open>What the role-assignment handler does is what the initialisation it calls does.\<close>

lemma handle_role_assignment_unfold:
  "handle_role_assignment init data self =
     init (assigned_role data)
       (self\<lparr>logger := logger self @ [LogInfo ''Role assigned: '' (assigned_role data)]\<rparr>)"
  by (simp add: handle_role_assignment_def Let_def)

lemma assigned_role_default: "data ''role'' = None \<Longrightarrow> assigned_role data = StrRole []"
  by (simp add: assigned_role_def)

text \<open>
  Claim C3, as the code has it. For a role code that is none of the manager's valid codes
  (2 and 3 in the voting manager; 1, 2 and 3 in the Harberger manager), initialising the
  agent writes the error \<^verbatim>\<open>Invalid role assigned; cannot initialize agent.\<close> to the
  manager's logger and then raises \<^verbatim>\<open>ValueError("Invalid role for agent initialization.")\<close>;
  no agent role is set. The role-assignment handler does not catch the exception: it
  leaves the handler, after the handler's own information record and the error record.
\<close>

theorem invalid_role_logs_and_raises:
  "(r \<noteq> IntRole 2 \<and> r \<noteq> IntRole 3 \<longrightarrow>
      VAgentManager_initialize_agent r vself =
        (Some (ValueError ''Invalid role for agent initialization.''),
         vself\<lparr>logger := logger vself @
           [LogError ''Invalid role assigned; cannot initialize agent.'']\<rparr>)) \<and>
   (r \<noteq> IntRole 1 \<and> r \<noteq> IntRole 2 \<and> r \<noteq> IntRole 3 \<longrightarrow>
      HLAgentManager_initialize_agent r hself =
        (Some (ValueError ''Invalid role for agent initialization.''),
         hself\<lparr>logger := logger hself @
           [LogError ''Invalid role assigned; cannot initialize agent.'']\<rparr>)) \<and>
   (assigned_role data \<noteq> IntRole 2 \<and> assigned_role data \<noteq> IntRole 3 \<longrightarrow>
      handle_role_assignment VAgentManager_initialize_agent data vself =
        (Some (ValueError ''Invalid role for agent initialization.''),
         vself\<lparr>logger := logger vself @
           [LogInfo ''Role assigned: '' (assigned_role data),
            LogError ''Invalid role assigned; cannot initialize agent.'']\<rparr>)) \<and>
   (assigned_role data \<noteq> IntRole 1 \<and> assigned_role data \<noteq> IntRole 2 \<and>
    assigned_role data \<noteq> IntRole 3 \<longrightarrow>
      handle_role_assignment HLAgentManager_initialize_agent data hself =
        (Some (ValueError ''Invalid role for agent initialization.''),
         hself\<lparr>logger := logger hself @
           [LogInfo ''Role assigned: '' (assigned_role data),
            LogError ''Invalid role assigned; cannot initialize agent.'']\<rparr>))"
  by (simp add: VAgentManager_initialize_agent_def HLAgentManager_initialize_agent_def
        handle_role_assignment_unfold)

theorem invalid_role_logs_and_raises_witness:
  "VAgentManager_initialize_agent (IntRole 7) \<lparr>agent_role = None, logger = []\<rparr> =
     (Some (ValueError ''Invalid role for agent initialization.''),
      \<lparr>agent_role = None,
       logger = [LogError ''Invalid role assigned; cannot initialize agent.'']\<rparr>) \<and>
   HLAgentManager_initialize_agent (IntRole 7) \<lparr>agent_role = None, logger = []\<rparr> =
     (Some (ValueError ''Invalid role for agent initialization.''),
      \<lparr>agent_role = None,
       logger = [LogError ''Invalid role assigned; cannot initialize agent.'']\<rparr>) \<and>
   handle_role_assignment VAgentManager_initialize_agent [''role'' \<mapsto> IntRole 7]
       \<lparr>agent_role = None, logger = []\<rparr> =
     (Some (ValueError ''Invalid role for agent initialization.''),
      \<lparr>agent_role = None,
       logger = [LogInfo ''Role assigned: '' (IntRole 7),
                 LogError ''Invalid role assigned; cannot initialize agent.'']\<rparr>) \<and>
   handle_role_assignment HLAgentManager_initialize_agent [''role'' \<mapsto> IntRole 7]
       \<lparr>agent_role = None, logger = []\<rparr> =
     (Some (ValueError ''Invalid role for agent initialization.''),
      \<lparr>agent_role = None,
       logger = [LogInfo ''Role assigned: '' (IntRole 7),
                 LogError ''Invalid role assigned; cannot initialize agent.'']\<rparr>)"
  using invalid_role_logs_and_raises
          [of "IntRole 7" "\<lparr>agent_role = None, logger = []\<rparr>"
              "\<lparr>agent_role = None, logger = []\<rparr>" "[''role'' \<mapsto> IntRole 7]"]
  by (simp add: assigned_role_def)

text \<open>
  The claim as the specification words it has a reported error in place of an exception.
  In the voting manager role code 1 is not valid, and the initialisation raises.
\<close>

theorem invalid_role_counterexample:
  "VAgentManager_initialize_agent (IntRole 1) \<lparr>agent_role = None, logger = []\<rparr> =
     (Some (ValueError ''Invalid role for agent initialization.''),
      \<lparr>agent_role = None,
       logger = [LogError ''Invalid role assigned; cannot initialize agent.'']\<rparr>)"
  by (simp add: VAgentManager_initialize_agent_def)

text \<open>A valid code sets the agent role and writes nothing to the logger.\<close>

lemma valid_role_initializes:
  "VAgentManager_initialize_agent (IntRole 2) self =
     (None, self\<lparr>agent_role := Some (wired Developer ''langsmith'')\<rparr>) \<and>
   VAgentManager_initialize_agent (IntRole 3) self =
     (None, self\<lparr>agent_role := Some (wired Owner ''langsmith'')\<rparr>)"
  by (simp add: VAgentManager_initialize_agent_def)

section \<open>The order book\<close>

lemma descending_iff:
  "sorted (map (\<lambda>x. - f x) xs) = sorted_wrt (\<lambda>x y. y \<le> x) (map (f :: 'a \<Rightarrow> real) xs)"
  by (induction xs) auto

lemma by_price_descending_sorted:
  "sorted_wrt (\<lambda>x y. y \<le> x) (map price (by_price_descending os))"
  unfolding by_price_descending_def descending_iff [symmetric]
  by (rule sorted_sort_key)

lemma by_price_descending_stable:
  "filter (\<lambda>ord. price ord = p) (by_price_descending os) = filter (\<lambda>ord. price ord = p) os"
proof -
  have "filter (\<lambda>ord. - price ord = - p) (sort_key (\<lambda>ord. - price ord) os)
          = filter (\<lambda>ord. - price ord = - p) os"
    by (rule sort_key_stable)
  then show ?thesis by (simp add: by_price_descending_def)
qed

lemma side_partition:
  "length (filter (\<lambda>ord. order_type ord = ask) os) +
   length (filter (\<lambda>ord. order_type ord = bid) os) = length os"
proof (induction os)
  case Nil
  then show ?case by simp
next
  case (Cons ord os)
  then show ?case by (cases "order_type ord") simp_all
qed

lemma side_partition_mset:
  "mset (filter (\<lambda>ord. order_type ord = ask) os) +
   mset (filter (\<lambda>ord. order_type ord = bid) os) = mset os"
proof (induction os)
  case Nil
  then show ?case by simp
next
  case (Cons ord os)
  then show ?case by (cases "order_type ord") simp_all
qed

lemma example_market_orders:
  "orders example_market =
     [(1, example_order 1 50 10 bid), (2, example_order 2 60 5 ask),
      (3, example_order 3 45 8 bid), (4, example_order 4 55 3 ask)]"
  by (simp add: example_market_def add_order_def example_order_def)

lemma example_market_book:
  "order_book_orders example_market =
     [example_order 2 60 5 ask, example_order 4 55 3 ask,
      example_order 1 50 10 bid, example_order 3 45 8 bid]"
  by (simp add: order_book_orders_def live_orders_def example_market_orders
        by_price_descending_def example_order_def)

lemma example_market_lines:
  "order_book_lines example_render example_market = [''ask 60'', ''ask 55'', ''bid 50'', ''bid 45'']"
  by (simp add: order_book_lines_def example_market_book example_render_def example_order_def)

text \<open>
  Claim C4. The order book has one line per live order. Its lines are those of the ask
  orders followed by those of the bid orders; within each side the prices never increase
  from one line to the next, and orders of one side with the same price stand in the order
  they have in the ledger.
\<close>

theorem order_book_ordering:
  "\<exists>asks bids.
     order_book_lines render m = map render (asks @ bids) \<and>
     length (order_book_lines render m) = length (orders m) \<and>
     mset (asks @ bids) = mset (live_orders m) \<and>
     (\<forall>ord \<in> set asks. order_type ord = ask) \<and>
     (\<forall>ord \<in> set bids. order_type ord = bid) \<and>
     sorted_wrt (\<lambda>x y. y \<le> x) (map price asks) \<and>
     sorted_wrt (\<lambda>x y. y \<le> x) (map price bids) \<and>
     (\<forall>p. filter (\<lambda>ord. price ord = p) asks
            = filter (\<lambda>ord. price ord = p)
                (filter (\<lambda>ord. order_type ord = ask) (live_orders m))) \<and>
     (\<forall>p. filter (\<lambda>ord. price ord = p) bids
            = filter (\<lambda>ord. price ord = p)
                (filter (\<lambda>ord. order_type ord = bid) (live_orders m)))"
proof -
  let ?as = "by_price_descending (filter (\<lambda>ord. order_type ord = ask) (live_orders m))"
  let ?bs = "by_price_descending (filter (\<lambda>ord. order_type ord = bid) (live_orders m))"
  have 1: "order_book_lines render m = map render (?as @ ?bs)"
    by (simp add: order_book_lines_def order_book_orders_def)
  have "length (order_book_lines render m) = length (live_orders m)"
    using side_partition [of "live_orders m"]
    by (simp add: order_book_lines_def order_book_orders_def by_price_descending_def)
  then have 2: "length (order_book_lines render m) = length (orders m)"
    by (simp add: live_orders_def)
  have 3: "mset (?as @ ?bs) = mset (live_orders m)"
    using side_partition_mset [of "live_orders m"]
    by (simp add: by_price_descending_def)
  have 4: "\<forall>ord \<in> set ?as. order_type ord = ask"
    by (simp add: by_price_descending_def)
  have 5: "\<forall>ord \<in> set ?bs. order_type ord = bid"
    by (simp add: by_price_descending_def)
  note 6 = by_price_descending_sorted [of "filter (\<lambda>ord. order_type ord = ask) (live_orders m)"]
  note 7 = by_price_descending_sorted [of "filter (\<lambda>ord. order_type ord = bid) (live_orders m)"]
  have 8: "\<forall>p. filter (\<lambda>ord. price ord = p) ?as
            = filter (\<lambda>ord. price ord = p)
                (filter (\<lambda>ord. order_type ord = ask) (live_orders m))"
    by (simp only: by_price_descending_stable) simp
  have 9: "\<forall>p. filter (\<lambda>ord. price ord = p) ?bs
            = filter (\<lambda>ord. price ord = p)
                (filter (\<lambda>ord. order_type ord = bid) (live_orders m))"
    by (simp only: by_price_descending_stable) simp
  show ?thesis
    by (rule exI [of _ ?as], rule exI [of _ ?bs]) (intro conjI 1 2 3 4 5 6 7 8 9)
qed

text \<open>
  The orders of the claim, ask at 60 and 55 and bid at 50 and 45, added as the test adds
  them: the lines come out in the order 60, 55, 50, 45.
\<close>

theorem order_book_ordering_witness:
  "order_book_lines example_render example_market
     = [''ask 60'', ''ask 55'', ''bid 50'', ''bid 45''] \<and>
   map price (order_book_orders example_market) = [60, 55, 50, 45] \<and>
   (\<exists>asks bids.
     order_book_lines example_render example_market = map example_render (asks @ bids) \<and>
     length (order_book_lines example_render example_market) = length (orders example_market) \<and>
     mset (asks @ bids) = mset (live_orders example_market) \<and>
     (\<forall>ord \<in> set asks. order_type ord = ask) \<and>
     (\<forall>ord \<in> set bids. order_type ord = bid) \<and>
     sorted_wrt (\<lambda>x y. y \<le> x) (map price asks) \<and>
     sorted_wrt (\<lambda>x y. y \<le> x) (map price bids) \<and>
     (\<forall>p. filter (\<lambda>ord. price ord = p) asks
            = filter (\<lambda>ord. price ord = p)
                (filter (\<lambda>ord. order_type ord = ask) (live_orders example_market))) \<and>
     (\<forall>p. filter (\<lambda>ord. price ord = p) bids
            = filter (\<lambda>ord. price ord = p)
                (filter (\<lambda>ord. order_type ord = bid) (live_orders example_market))))"
proof -
  have "map price (order_book_orders example_market) = [60, 55, 50, 45]"
    by (simp add: example_market_book example_order_def)
  with example_market_lines order_book_ordering [of example_render example_market]
  show ?thesis by (intro conjI)
qed

section \<open>Adding an order twice\<close>

text \<open>
  Claim C6. Adding the same order twice leaves the ledger as adding it once does. The
  order is stored under its id; the entries under other ids are untouched; and when the id
  is already in the ledger the set and the order of the ids stay as they are, so the new
  order takes the place of the old one.
\<close>

theorem add_order_idempotent:
  "add_order ord (add_order ord m) = add_order ord m \<and>
   map_of (orders (add_order ord m)) (order_id ord) = Some ord \<and>
   (\<forall>k. k \<noteq> order_id ord \<longrightarrow> map_of (orders (add_order ord m)) k = map_of (orders m) k) \<and>
   (order_id ord \<in> fst ` set (orders m) \<longrightarrow>
      map fst (orders (add_order ord m)) = map fst (orders m))"
  by (simp add: add_order_def AList.update_conv' AList.update_keys)

theorem add_order_idempotent_witness:
  "add_order (example_order 1 52 10 bid) (add_order (example_order 1 52 10 bid) example_market)
     = add_order (example_order 1 52 10 bid) example_market \<and>
   orders (add_order (example_order 1 52 10 bid) example_market) =
     [(1, example_order 1 52 10 bid), (2, example_order 2 60 5 ask),
      (3, example_order 3 45 8 bid), (4, example_order 4 55 3 ask)]"
proof -
  have "orders (add_order (example_order 1 52 10 bid) example_market) =
     [(1, example_order 1 52 10 bid), (2, example_order 2 60 5 ask),
      (3, example_order 3 45 8 bid), (4, example_order 4 55 3 ask)]"
    by (simp add: add_order_def example_market_orders example_order_def)
  with add_order_idempotent [of "example_order 1 52 10 bid" example_market]
  show ?thesis by simp
qed

end
